theory Spec2Isabelle
  imports
    Main
    "HOL-Library.Char_ord"
    "HOL-Library.List_Lexorder"
    "HOL-Library.Product_Lexorder"
    "HOL-Library.Multiset"
begin

section \<open>Data model of the visualization CLI\<close>

text \<open>
  The ORM rows the tool reads (\<^verbatim>\<open>e2ebench.datamodel\<close>): a \<^verbatim>\<open>Measurement\<close> with the
  columns the queries of \<^verbatim>\<open>create_dfs\<close> and \<^verbatim>\<open>join_remaining_columns\<close> select, and a
  \<^verbatim>\<open>BenchmarkMetadata\<close>. Timestamps (\<open>'ts\<close>) and the pickled payload (\<open>'b\<close>) are opaque.
  Descriptions and units are nullable columns.
\<close>

record ('ts, 'b) Measurement =
  m_id :: int
  m_benchmark_uuid :: string
  m_measurement_type :: string
  m_description :: "string option"
  m_datetime :: 'ts
  m_value :: 'b
  m_unit :: "string option"

record 'ts BenchmarkMetadata =
  b_uuid :: string
  b_description :: "string option"
  b_start_time :: 'ts

record ('ts, 'b) session =
  measurements :: "('ts, 'b) Measurement list"
  benchmark_metadata :: "'ts BenchmarkMetadata list"

text \<open>
  A row of \<^verbatim>\<open>meas_df\<close> (columns \<^verbatim>\<open>id, uuid, measurement_type, measurement_desc\<close>) and a row
  of \<^verbatim>\<open>meta_df\<close> (columns \<^verbatim>\<open>uuid, meta_desc, meta_start_time\<close>). A data frame is the list
  of its rows, in order.
\<close>

record meas_row =
  row_id :: int
  uuid :: string
  measurement_type :: string
  measurement_desc :: "string option"

record 'ts meta_row =
  meta_uuid :: string
  meta_desc :: "string option"
  meta_start_time :: 'ts

datatype backend = Matplotlib | Plotly

text \<open>The namespace \<^verbatim>\<open>get_args\<close> returns; an option that was not given is \<^verbatim>\<open>None\<close>.\<close>

record args =
  db_file :: string
  uuids :: "string list option"
  types :: "string list option"
  descriptions :: "string list option"
  plotting_backend :: backend

datatype error =
  NoMatchingRecords
  | UnpicklingError
  | KeyError string
  | TypeError

text \<open>
  The Python values that reach \<^verbatim>\<open>Series.isin\<close>: cell values (integers, strings, \<^verbatim>\<open>None\<close>)
  and, as an element of the list handed to \<^verbatim>\<open>isin\<close>, possibly a list itself.
\<close>

datatype pyval = PyNone | PyInt int | PyStr string | PyList "pyval list"

fun py_desc :: "string option \<Rightarrow> pyval" where
  "py_desc None = PyNone"
| "py_desc (Some s) = PyStr s"

text \<open>
  \<^verbatim>\<open>Series.isin(values)\<close>: whether the cell is an element of \<^verbatim>\<open>values\<close> (Python equality;
  a string never equals a list). This is the documented meaning. An implementation that
  hashes the elements of \<^verbatim>\<open>values\<close> raises on an element that is a list; the Criteria
  Filter then ends in that exception at the same statement, and returns no table either.
\<close>

definition isin :: "pyval \<Rightarrow> pyval list \<Rightarrow> bool" where
  "isin v values = (v \<in> set values)"

text \<open>Python truthiness of an optional list: \<^verbatim>\<open>None\<close> and \<^verbatim>\<open>[]\<close> are false.\<close>

fun truthy :: "'a list option \<Rightarrow> bool" where
  "truthy None = False"
| "truthy (Some xs) = (xs \<noteq> [])"

section \<open>Record Loader\<close>

definition create_dfs :: "('ts, 'b) session \<Rightarrow> meas_row list \<times> 'ts meta_row list" where
  "create_dfs s =
     (map (\<lambda>m. \<lparr>row_id = m_id m, uuid = m_benchmark_uuid m,
                measurement_type = m_measurement_type m,
                measurement_desc = m_description m\<rparr>) (measurements s),
      map (\<lambda>b. \<lparr>meta_uuid = b_uuid b, meta_desc = b_description b,
                meta_start_time = b_start_time b\<rparr>) (benchmark_metadata s))"

section \<open>Criteria Filter\<close>

text \<open>
  \<^verbatim>\<open>filter_by_args\<close>, statement by statement. Each supplied argument list is wrapped in one
  more list before it is handed to \<^verbatim>\<open>isin\<close>, as the source does
  (\<^verbatim>\<open>isin([args.uuids])\<close>, \<^verbatim>\<open>isin([args.types])\<close>, \<^verbatim>\<open>isin([args.descriptions])\<close>).
\<close>

definition filter_by_args ::
  "meas_row list \<Rightarrow> 'ts meta_row list \<Rightarrow> args \<Rightarrow> error + (meas_row list \<times> 'ts meta_row list)" where
  "filter_by_args meas_df meta_df a =
    (let (meas_df1, meta_df1) =
           (if truthy (uuids a)
            then (filter (\<lambda>r. isin (PyStr (uuid r)) [PyList (map PyStr (the (uuids a)))]) meas_df,
                  filter (\<lambda>r. isin (PyStr (meta_uuid r)) [PyList (map PyStr (the (uuids a)))]) meta_df)
            else (meas_df, meta_df));
         meas_df2 =
           (if truthy (types a)
            then filter (\<lambda>r. isin (PyStr (measurement_type r)) [PyList (map PyStr (the (types a)))]) meas_df1
            else meas_df1);
         meas_df3 =
           (if truthy (descriptions a)
            then filter (\<lambda>r. isin (py_desc (measurement_desc r)) [PyList (map PyStr (the (descriptions a)))]) meas_df2
            else meas_df2)
     in if meas_df3 = [] then Inl NoMatchingRecords else Inr (meas_df3, meta_df1))"

text \<open>
  The first statement of \<^verbatim>\<open>filter_by_args\<close> on its own (the \<^verbatim>\<open>if args.uuids:\<close> block): the
  run-identifier test, put to the rows of both tables. It is the only statement that
  assigns \<^verbatim>\<open>meta_df\<close>.
\<close>

definition narrow_by_uuids ::
  "meas_row list \<Rightarrow> 'ts meta_row list \<Rightarrow> args \<Rightarrow> meas_row list \<times> 'ts meta_row list" where
  "narrow_by_uuids meas_df meta_df a =
     (if truthy (uuids a)
      then (filter (\<lambda>r. isin (PyStr (uuid r)) [PyList (map PyStr (the (uuids a)))]) meas_df,
            filter (\<lambda>r. isin (PyStr (meta_uuid r)) [PyList (map PyStr (the (uuids a)))]) meta_df)
      else (meas_df, meta_df))"

section \<open>Interactive Selector\<close>

text \<open>
  A checkbox prompt is given a list of choices, each a \<^verbatim>\<open>Separator\<close> or a dictionary with a
  \<^verbatim>\<open>name\<close> and a \<^verbatim>\<open>value\<close>, and answers with the values the user ticked. The user is a
  function from the presented choices to the ticked values.
\<close>

datatype 'v choice = Separator string | Choice string 'v

fun choice_values :: "'v choice list \<Rightarrow> 'v list" where
  "choice_values [] = []"
| "choice_values (Separator s # cs) = choice_values cs"
| "choice_values (Choice n v # cs) = v # choice_values cs"

text \<open>The user who ticks every presented choice.\<close>

definition select_all :: "'v choice list \<Rightarrow> 'v list" where
  "select_all cs = choice_values cs"

text \<open>The user who ticks nothing.\<close>

definition select_none :: "'v choice list \<Rightarrow> 'v list" where
  "select_none cs = []"

text \<open>
  \<^verbatim>\<open>DataFrame.groupby(key)\<close>, iterated: one pair of key and group per distinct key, the keys
  in ascending order, each group holding the rows of that key in their original order.
  Rows whose key is null belong to no group (\<open>groupby_nullable\<close>).
\<close>

definition groupby :: "('r \<Rightarrow> 'k::linorder) \<Rightarrow> 'r list \<Rightarrow> ('k \<times> 'r list) list" where
  "groupby key df =
     map (\<lambda>k. (k, filter (\<lambda>r. key r = k) df)) (sort (remdups (map key df)))"

definition groupby_nullable ::
  "('r \<Rightarrow> 'k::linorder option) \<Rightarrow> 'r list \<Rightarrow> ('k \<times> 'r list) list" where
  "groupby_nullable key df =
     map (\<lambda>k. (k, filter (\<lambda>r. key r = Some k) df)) (sort (remdups (List.map_filter key df)))"

definition uuid_choices :: "('ts \<Rightarrow> string) \<Rightarrow> 'ts meta_row list \<Rightarrow> string choice list" where
  "uuid_choices str meta_df =
     map (\<lambda>db_entry.
            Choice (meta_uuid db_entry @ '', '' @ str (meta_start_time db_entry) @
                    (case meta_desc db_entry of
                       None \<Rightarrow> []
                     | Some d \<Rightarrow> if d \<noteq> [] then '', description: '' @ d else []))
                   (meta_uuid db_entry))
         meta_df"

definition prompt_for_uuid ::
  "(string choice list \<Rightarrow> string list) \<Rightarrow> ('ts \<Rightarrow> string) \<Rightarrow>
   meas_row list \<Rightarrow> 'ts meta_row list \<Rightarrow> meas_row list \<times> 'ts meta_row list" where
  "prompt_for_uuid prompt str meas_df meta_df =
    (let chosen_uuids = prompt (uuid_choices str meta_df)
     in (filter (\<lambda>r. isin (PyStr (uuid r)) (map PyStr chosen_uuids)) meas_df,
         filter (\<lambda>r. isin (PyStr (meta_uuid r)) (map PyStr chosen_uuids)) meta_df))"

definition type_choices :: "meas_row list \<Rightarrow> int list choice list" where
  "type_choices meas_df =
     concat (map (\<lambda>(u, uuid_group).
                    Separator (''Available types for uuid '' @ u) #
                    map (\<lambda>(meas_type, meas_type_group). Choice meas_type (map row_id meas_type_group))
                        (groupby measurement_type uuid_group))
                 (groupby uuid meas_df))"

definition prompt_for_types ::
  "(int list choice list \<Rightarrow> int list list) \<Rightarrow> meas_row list \<Rightarrow> meas_row list" where
  "prompt_for_types prompt meas_df =
    (let prompt_res = prompt (type_choices meas_df);
         idx = concat prompt_res
     in filter (\<lambda>r. isin (PyInt (row_id r)) (map PyInt idx)) meas_df)"

definition description_choices :: "meas_row list \<Rightarrow> int list choice list" where
  "description_choices meas_df =
     concat (map (\<lambda>((u, meas_type), u_t_group).
                    Separator (''Available descriptions for uuid '' @ u @ '' and type '' @ meas_type) #
                    map (\<lambda>(desc, desc_group). Choice desc (map row_id desc_group))
                        (groupby_nullable measurement_desc u_t_group))
                 (groupby (\<lambda>r. (uuid r, measurement_type r)) meas_df))"

definition prompt_for_description ::
  "(int list choice list \<Rightarrow> int list list) \<Rightarrow> meas_row list \<Rightarrow> meas_row list" where
  "prompt_for_description prompt meas_df =
    (let prompt_res = prompt (description_choices meas_df);
         idx = concat prompt_res
     in filter (\<lambda>r. isin (PyInt (row_id r)) (map PyInt idx)) meas_df)"

section \<open>Payload Joiner\<close>

text \<open>
  A row of \<^verbatim>\<open>serialized_df\<close> after the payload was unpickled and the \<^verbatim>\<open>bytes\<close> column
  dropped, and a row of the joined table the visualizers receive.
\<close>

record ('ts, 'd) serialized_row =
  ser_id :: int
  measurement_time :: 'ts
  measurement_unit :: "string option"
  measurement_data :: 'd

record ('ts, 'd) flat_row =
  flat_id :: int
  flat_uuid :: string
  flat_measurement_type :: string
  flat_measurement_desc :: "string option"
  flat_measurement_time :: 'ts
  flat_measurement_unit :: "string option"
  flat_measurement_data :: 'd
  flat_meta_desc :: "string option"
  flat_meta_start_time :: 'ts

text \<open>
  \<^verbatim>\<open>serialized_df['bytes'].map(pickle.loads)\<close>: \<open>loads\<close> is \<^verbatim>\<open>pickle.loads\<close>, which
  answers \<open>None\<close> where it raises; the first payload that cannot be decoded aborts the map.
\<close>

fun unpickle_rows ::
  "('b \<Rightarrow> 'd option) \<Rightarrow> ('ts, 'b) Measurement list \<Rightarrow> error + ('ts, 'd) serialized_row list" where
  "unpickle_rows loads [] = Inr []"
| "unpickle_rows loads (m # ms) =
     (case loads (m_value m) of
        None \<Rightarrow> Inl UnpicklingError
      | Some d \<Rightarrow>
          (case unpickle_rows loads ms of
             Inl e \<Rightarrow> Inl e
           | Inr rows \<Rightarrow>
               Inr (\<lparr>ser_id = m_id m, measurement_time = m_datetime m,
                     measurement_unit = m_unit m, measurement_data = d\<rparr> # rows)))"

text \<open>
  \<^verbatim>\<open>left.merge(right, on=key)\<close>, an inner join: every left row paired with every right
  row of the same key. The model lists the pairs in the order of the left table. The order
  in which pandas returns them depends on its version (older versions return them grouped
  by key), so the properties of the join below are stated up to the order of the rows.
\<close>

definition merge :: "('l \<Rightarrow> 'k) \<Rightarrow> ('r \<Rightarrow> 'k) \<Rightarrow> 'l list \<Rightarrow> 'r list \<Rightarrow> ('l \<times> 'r) list" where
  "merge lkey rkey left right =
     concat (map (\<lambda>l. map (Pair l) (filter (\<lambda>r. rkey r = lkey l) right)) left)"

definition flat_of ::
  "(meas_row \<times> ('ts, 'd) serialized_row) \<times> 'ts meta_row \<Rightarrow> ('ts, 'd) flat_row" where
  "flat_of x =
     (case x of ((r, s), m) \<Rightarrow>
        \<lparr>flat_id = row_id r, flat_uuid = uuid r,
         flat_measurement_type = measurement_type r,
         flat_measurement_desc = measurement_desc r,
         flat_measurement_time = measurement_time s,
         flat_measurement_unit = measurement_unit s,
         flat_measurement_data = measurement_data s,
         flat_meta_desc = meta_desc m,
         flat_meta_start_time = meta_start_time m\<rparr>)"

definition join_remaining_columns ::
  "('b \<Rightarrow> 'd option) \<Rightarrow> meas_row list \<Rightarrow> 'ts meta_row list \<Rightarrow> ('ts, 'b) session \<Rightarrow>
   error + ('ts, 'd) flat_row list" where
  "join_remaining_columns loads meas_df meta_df s =
    (let serialized_query =
           filter (\<lambda>m. m_id m \<in> set (map row_id meas_df)) (measurements s)
     in case unpickle_rows loads serialized_query of
          Inl e \<Rightarrow> Inl e
        | Inr serialized_df \<Rightarrow>
            Inr (map flat_of
                   (merge (\<lambda>(r, s). uuid r) meta_uuid
                      (merge row_id ser_id meas_df serialized_df) meta_df)))"

section \<open>Render Dispatcher\<close>

text \<open>
  What \<^verbatim>\<open>visualizer.plot()\<close> hands back: one figure, or a list of figures. A visualizer
  class is applied to the rows of its group and the backend; the mapping from measurement
  types to visualizer classes is a dictionary.
\<close>

datatype 'f plot_result = Figure 'f | Figures "'f list"

type_synonym ('ts, 'd, 'f) visualizer = "('ts, 'd) flat_row list \<Rightarrow> backend \<Rightarrow> 'f plot_result"

text \<open>The loop over the groups, appending each plot result to \<^verbatim>\<open>figs\<close>.\<close>

fun render_loop ::
  "(string \<rightharpoonup> ('ts, 'd, 'f) visualizer) \<Rightarrow> backend \<Rightarrow>
   (string \<times> ('ts, 'd) flat_row list) list \<Rightarrow> 'f plot_result list \<Rightarrow>
   error + 'f plot_result list" where
  "render_loop mapper b [] figs = Inr figs"
| "render_loop mapper b ((meas_type, type_group_df) # rest) figs =
     (case mapper meas_type of
        None \<Rightarrow> Inl (KeyError meas_type)
      | Some visualizer_class \<Rightarrow>
          render_loop mapper b rest (figs @ [visualizer_class type_group_df b]))"

text \<open>
  \<^verbatim>\<open>list(chain(*figs))\<close>: every collected result is iterated. A list of figures yields its
  figures; a figure is not a sequence of figures, and iterating it is a \<^verbatim>\<open>TypeError\<close>.
  The figure handle is taken as not iterable, as a matplotlib figure is; a figure object
  that is iterable would yield its own items in place of the figure, so the figure would
  not be collected either.
\<close>

fun chain :: "'f plot_result list \<Rightarrow> error + 'f list" where
  "chain [] = Inr []"
| "chain (Figure f # rest) = Inl TypeError"
| "chain (Figures fs # rest) =
     (case chain rest of Inl e \<Rightarrow> Inl e | Inr out \<Rightarrow> Inr (fs @ out))"

definition render_dispatch ::
  "(string \<rightharpoonup> ('ts, 'd, 'f) visualizer) \<Rightarrow> backend \<Rightarrow> ('ts, 'd) flat_row list \<Rightarrow>
   error + 'f list" where
  "render_dispatch mapper b df =
     (case render_loop mapper b (groupby flat_measurement_type df) [] of
        Inl e \<Rightarrow> Inl e
      | Inr figs \<Rightarrow> chain figs)"

section \<open>The pipeline\<close>

text \<open>
  \<^verbatim>\<open>main\<close>: the result is the list of figures handed to the display, or the exception that
  ended the run. The session, \<^verbatim>\<open>pickle.loads\<close>, the visualizer mapping and the user's
  answers to the three prompts are the collaborators. The three \<^verbatim>\<open>if args.x is None\<close>
  statements are the three stage functions.
\<close>

definition uuid_stage ::
  "args \<Rightarrow> (string choice list \<Rightarrow> string list) \<Rightarrow> ('ts \<Rightarrow> string) \<Rightarrow>
   meas_row list \<Rightarrow> 'ts meta_row list \<Rightarrow> meas_row list \<times> 'ts meta_row list" where
  "uuid_stage a prompt_u str meas_df meta_df =
     (if uuids a = None then prompt_for_uuid prompt_u str meas_df meta_df else (meas_df, meta_df))"

definition types_stage ::
  "args \<Rightarrow> (int list choice list \<Rightarrow> int list list) \<Rightarrow> meas_row list \<Rightarrow> meas_row list" where
  "types_stage a prompt_t meas_df =
     (if types a = None then prompt_for_types prompt_t meas_df else meas_df)"

definition description_stage ::
  "args \<Rightarrow> (int list choice list \<Rightarrow> int list list) \<Rightarrow> meas_row list \<Rightarrow> meas_row list" where
  "description_stage a prompt_d meas_df =
     (if descriptions a = None then prompt_for_description prompt_d meas_df else meas_df)"

definition main ::
  "args \<Rightarrow> ('ts, 'b) session \<Rightarrow> ('b \<Rightarrow> 'd option) \<Rightarrow> (string \<rightharpoonup> ('ts, 'd, 'f) visualizer) \<Rightarrow>
   ('ts \<Rightarrow> string) \<Rightarrow> (string choice list \<Rightarrow> string list) \<Rightarrow>
   (int list choice list \<Rightarrow> int list list) \<Rightarrow> (int list choice list \<Rightarrow> int list list) \<Rightarrow>
   error + 'f list" where
  "main a s loads mapper str prompt_u prompt_t prompt_d =
    (case create_dfs s of (meas_df0, meta_df0) \<Rightarrow>
     (case filter_by_args meas_df0 meta_df0 a of
        Inl e \<Rightarrow> Inl e
      | Inr (meas_df1, meta_df1) \<Rightarrow>
          (case uuid_stage a prompt_u str meas_df1 meta_df1 of (meas_df2, meta_df2) \<Rightarrow>
             (let meas_df3 = types_stage a prompt_t meas_df2;
                  meas_df4 = description_stage a prompt_d meas_df3
              in case join_remaining_columns loads meas_df4 meta_df2 s of
                   Inl e \<Rightarrow> Inl e
                 | Inr df \<Rightarrow> render_dispatch mapper (plotting_backend a) df))))"

section \<open>A concrete store\<close>

text \<open>
  Two runs: run \<open>A\<close> with one latency and one memory measurement, run \<open>B\<close> with one latency
  measurement and no run description. Timestamps are numbers, payloads are lists of bytes
  that \<open>loads_ok\<close> decodes to their length.
\<close>

definition two_run_session :: "(nat, nat list) session" where
  "two_run_session =
     \<lparr>measurements =
        [\<lparr>m_id = 1, m_benchmark_uuid = ''A'', m_measurement_type = ''latency'',
          m_description = Some ''d1'', m_datetime = 101, m_value = [1, 2], m_unit = Some ''ms''\<rparr>,
         \<lparr>m_id = 2, m_benchmark_uuid = ''A'', m_measurement_type = ''memory'',
          m_description = Some ''d2'', m_datetime = 102, m_value = [3], m_unit = Some ''MB''\<rparr>,
         \<lparr>m_id = 3, m_benchmark_uuid = ''B'', m_measurement_type = ''latency'',
          m_description = Some ''d1'', m_datetime = 201, m_value = [], m_unit = None\<rparr>],
      benchmark_metadata =
        [\<lparr>b_uuid = ''A'', b_description = Some ''first run'', b_start_time = 100\<rparr>,
         \<lparr>b_uuid = ''B'', b_description = None, b_start_time = 200\<rparr>]\<rparr>"

definition two_run_meas :: "meas_row list" where
  "two_run_meas =
     [\<lparr>row_id = 1, uuid = ''A'', measurement_type = ''latency'', measurement_desc = Some ''d1''\<rparr>,
      \<lparr>row_id = 2, uuid = ''A'', measurement_type = ''memory'', measurement_desc = Some ''d2''\<rparr>,
      \<lparr>row_id = 3, uuid = ''B'', measurement_type = ''latency'', measurement_desc = Some ''d1''\<rparr>]"

definition two_run_meta :: "nat meta_row list" where
  "two_run_meta =
     [\<lparr>meta_uuid = ''A'', meta_desc = Some ''first run'', meta_start_time = 100\<rparr>,
      \<lparr>meta_uuid = ''B'', meta_desc = None, meta_start_time = 200\<rparr>]"

definition loads_ok :: "nat list \<Rightarrow> nat option" where
  "loads_ok bs = Some (length bs)"

definition str_time :: "nat \<Rightarrow> string" where
  "str_time t = (if t < 200 then ''2020-01-01 00:00:00'' else ''2020-01-02 00:00:00'')"

text \<open>The command line that names the database file only.\<close>

definition no_criteria :: args where
  "no_criteria =
     \<lparr>db_file = ''bench.db'', uuids = None, types = None, descriptions = None,
      plotting_backend = Matplotlib\<rparr>"

text \<open>The joined table of that store, as the Payload Joiner builds it with \<open>loads_ok\<close>.\<close>

definition two_run_flat :: "(nat, nat) flat_row list" where
  "two_run_flat =
     [\<lparr>flat_id = 1, flat_uuid = ''A'', flat_measurement_type = ''latency'',
       flat_measurement_desc = Some ''d1'', flat_measurement_time = 101,
       flat_measurement_unit = Some ''ms'', flat_measurement_data = 2,
       flat_meta_desc = Some ''first run'', flat_meta_start_time = 100\<rparr>,
      \<lparr>flat_id = 2, flat_uuid = ''A'', flat_measurement_type = ''memory'',
       flat_measurement_desc = Some ''d2'', flat_measurement_time = 102,
       flat_measurement_unit = Some ''MB'', flat_measurement_data = 1,
       flat_meta_desc = Some ''first run'', flat_meta_start_time = 100\<rparr>,
      \<lparr>flat_id = 3, flat_uuid = ''B'', flat_measurement_type = ''latency'',
       flat_measurement_desc = Some ''d1'', flat_measurement_time = 201,
       flat_measurement_unit = None, flat_measurement_data = 0,
       flat_meta_desc = None, flat_meta_start_time = 200\<rparr>]"

text \<open>
  Two visualizer mappings over figure handles that are strings: one that knows the latency
  type only, and one whose latency visualizer hands back a single figure while its memory
  visualizer hands back a list.
\<close>

definition latency_only_mapper :: "string \<rightharpoonup> (nat, nat, string) visualizer" where
  "latency_only_mapper = [''latency'' \<mapsto> (\<lambda>rows b. Figures [''latency plot''])]"

definition single_figure_mapper :: "string \<rightharpoonup> (nat, nat, string) visualizer" where
  "single_figure_mapper =
     [''latency'' \<mapsto> (\<lambda>rows b. Figure ''latency plot''),
      ''memory'' \<mapsto> (\<lambda>rows b. Figures [''memory plot''])]"

text \<open>
  A measurement-index table of one run and one type whose three rows have a null
  description, the empty string as description, and an ordinary description.
\<close>

definition null_desc_row :: meas_row where
  "null_desc_row =
     \<lparr>row_id = 1, uuid = ''A'', measurement_type = ''latency'', measurement_desc = None\<rparr>"

definition empty_desc_row :: meas_row where
  "empty_desc_row =
     \<lparr>row_id = 2, uuid = ''A'', measurement_type = ''latency'', measurement_desc = Some []\<rparr>"

definition desc_meas :: "meas_row list" where
  "desc_meas =
     [null_desc_row, empty_desc_row,
      \<lparr>row_id = 3, uuid = ''A'', measurement_type = ''latency'',
       measurement_desc = Some ''warm cache''\<rparr>]"

section \<open>Auxiliary notions\<close>

text \<open>The names of the presented choices: what a user who ticks everything has chosen by name.\<close>

fun choice_names :: "'v choice list \<Rightarrow> string list" where
  "choice_names [] = []"
| "choice_names (Separator s # cs) = choice_names cs"
| "choice_names (Choice n v # cs) = n # choice_names cs"

text \<open>
  The Criteria Filter as the specification words it, for comparison with \<open>filter_by_args\<close>:
  each criterion is a membership predicate on its column, and the criteria are combined
  conjunctively.
\<close>

definition membership_filter ::
  "string list \<Rightarrow> string list \<Rightarrow> string list \<Rightarrow> meas_row list \<Rightarrow> meas_row list" where
  "membership_filter run_ids measurement_types descs meas_df =
     filter (\<lambda>r. uuid r \<in> set run_ids \<and> measurement_type r \<in> set measurement_types
                 \<and> measurement_desc r \<in> Some ` set descs) meas_df"

text \<open>The row of \<^verbatim>\<open>serialized_df\<close> that a stored measurement with a decodable payload becomes.\<close>

definition serialized_of ::
  "('b \<Rightarrow> 'd option) \<Rightarrow> ('ts, 'b) Measurement \<Rightarrow> ('ts, 'd) serialized_row" where
  "serialized_of loads m =
     \<lparr>ser_id = m_id m, measurement_time = m_datetime m, measurement_unit = m_unit m,
      measurement_data = the (loads (m_value m))\<rparr>"

section \<open>Criteria Filter: properties\<close>

lemma isin_wrapped_str: "\<not> isin (PyStr s) [PyList xs]"
  by (simp add: isin_def)

lemma isin_wrapped_desc: "\<not> isin (py_desc d) [PyList xs]"
  by (cases d) (simp_all add: isin_def)

lemma filter_by_args_supplied:
  "truthy (uuids a) \<or> truthy (types a) \<or> truthy (descriptions a) \<Longrightarrow>
   filter_by_args meas_df meta_df a = Inl NoMatchingRecords"
  by (auto simp: filter_by_args_def Let_def isin_wrapped_str isin_wrapped_desc)

lemma filter_by_args_not_supplied:
  "\<not> truthy (uuids a) \<Longrightarrow> \<not> truthy (types a) \<Longrightarrow> \<not> truthy (descriptions a) \<Longrightarrow>
   filter_by_args meas_df meta_df a =
     (if meas_df = [] then Inl NoMatchingRecords else Inr (meas_df, meta_df))"
  by (simp add: filter_by_args_def Let_def)

text \<open>
  Claim C1, at the scenario of the specification: on the store with runs \<open>A\<close> (one latency,
  one memory measurement) and \<open>B\<close> (one latency measurement), filtering with
  \<^verbatim>\<open>types = ["latency"]\<close> does not return the two latency rows. The argument list is wrapped
  in a list before the membership test, no cell equals that list, and the filter ends in
  the no-matching-records exception.
\<close>

theorem filter_by_args_latency_scenario:
  "filter_by_args two_run_meas two_run_meta (no_criteria\<lparr>types := Some [''latency'']\<rparr>)
     = Inl NoMatchingRecords"
  by (simp add: filter_by_args_def Let_def no_criteria_def isin_wrapped_str)

text \<open>
  Claim C2: when a supplied criterion list shares no value with its column of the
  measurement-index table, the Criteria Filter ends in the no-matching-records error; and
  whatever the input, a table the filter returns is never empty.
\<close>

theorem filter_by_args_never_empty:
  "(truthy (uuids a) \<and> set (the (uuids a)) \<inter> uuid ` set meas_df = {}
     \<or> truthy (types a) \<and> set (the (types a)) \<inter> measurement_type ` set meas_df = {}
     \<or> truthy (descriptions a)
         \<and> Some ` set (the (descriptions a)) \<inter> measurement_desc ` set meas_df = {}
    \<longrightarrow> filter_by_args meas_df meta_df a = Inl NoMatchingRecords)
   \<and> (\<forall>m t. filter_by_args meas_df meta_df a = Inr (m, t) \<longrightarrow> m \<noteq> [])"
proof (intro conjI impI allI)
  assume "truthy (uuids a) \<and> set (the (uuids a)) \<inter> uuid ` set meas_df = {}
     \<or> truthy (types a) \<and> set (the (types a)) \<inter> measurement_type ` set meas_df = {}
     \<or> truthy (descriptions a)
         \<and> Some ` set (the (descriptions a)) \<inter> measurement_desc ` set meas_df = {}"
  then have "truthy (uuids a) \<or> truthy (types a) \<or> truthy (descriptions a)"
    by blast
  then show "filter_by_args meas_df meta_df a = Inl NoMatchingRecords"
    by (rule filter_by_args_supplied)
next
  fix m t
  assume "filter_by_args meas_df meta_df a = Inr (m, t)"
  then show "m \<noteq> []"
    by (auto simp: filter_by_args_def Let_def split: if_splits)
qed

theorem filter_by_args_never_empty_witness:
  "truthy (uuids (no_criteria\<lparr>uuids := Some [''nonexistent'']\<rparr>))
   \<and> set (the (uuids (no_criteria\<lparr>uuids := Some [''nonexistent'']\<rparr>))) \<inter> uuid ` set two_run_meas = {}
   \<and> filter_by_args two_run_meas two_run_meta (no_criteria\<lparr>uuids := Some [''nonexistent'']\<rparr>)
       = Inl NoMatchingRecords
   \<and> filter_by_args two_run_meas two_run_meta no_criteria = Inr (two_run_meas, two_run_meta)
   \<and> two_run_meas \<noteq> []"
proof -
  have h: "truthy (uuids (no_criteria\<lparr>uuids := Some [''nonexistent'']\<rparr>))
           \<and> set (the (uuids (no_criteria\<lparr>uuids := Some [''nonexistent'']\<rparr>))) \<inter> uuid ` set two_run_meas = {}"
    by (simp add: no_criteria_def two_run_meas_def)
  have r: "filter_by_args two_run_meas two_run_meta no_criteria = Inr (two_run_meas, two_run_meta)"
    by (simp add: filter_by_args_def Let_def no_criteria_def two_run_meas_def)
  from filter_by_args_never_empty
         [of "no_criteria\<lparr>uuids := Some [''nonexistent'']\<rparr>" two_run_meas two_run_meta] h
  have e: "filter_by_args two_run_meas two_run_meta (no_criteria\<lparr>uuids := Some [''nonexistent'']\<rparr>)
             = Inl NoMatchingRecords"
    by blast
  from filter_by_args_never_empty [of no_criteria two_run_meas two_run_meta] r
  have n: "two_run_meas \<noteq> []"
    by blast
  from h r e n show ?thesis by blast
qed

text \<open>
  Claim C4 as stated fails: with no criterion supplied the metadata table is returned as it
  came in, and it keeps run \<open>B\<close> although no measurement of \<open>B\<close> is in the measurement-index
  table.
\<close>

theorem filter_by_args_keeps_unreferenced_run:
  "filter_by_args (take 2 two_run_meas) two_run_meta no_criteria
     = Inr (take 2 two_run_meas, two_run_meta)
   \<and> ''B'' \<in> set (map meta_uuid two_run_meta)
   \<and> ''B'' \<notin> set (map uuid (take 2 two_run_meas))"
  by (simp add: filter_by_args_def Let_def no_criteria_def two_run_meas_def two_run_meta_def)

text \<open>
  The Criteria Filter in steps: the run-identifier statement, then the type and the
  description statement on the measurement table alone, then the emptiness check.
\<close>

lemma filter_by_args_steps:
  "filter_by_args meas_df meta_df a =
    (let meas_df1 = fst (narrow_by_uuids meas_df meta_df a);
         meas_df2 =
           (if truthy (types a)
            then filter (\<lambda>r. isin (PyStr (measurement_type r)) [PyList (map PyStr (the (types a)))])
                   meas_df1
            else meas_df1);
         meas_df3 =
           (if truthy (descriptions a)
            then filter (\<lambda>r. isin (py_desc (measurement_desc r))
                                 [PyList (map PyStr (the (descriptions a)))]) meas_df2
            else meas_df2)
     in if meas_df3 = [] then Inl NoMatchingRecords
        else Inr (meas_df3, snd (narrow_by_uuids meas_df meta_df a)))"
  by (simp add: filter_by_args_def narrow_by_uuids_def Let_def)

text \<open>
  Claim C4, amended: the metadata table the Criteria Filter returns is the input metadata
  table narrowed by the run-identifier criterion alone. It is the metadata table of the
  run-identifier statement; that table holds rows of the input metadata table in their
  order; when run identifiers are supplied a metadata row is kept exactly when the
  measurement rows of its run are kept by that statement, and when none are supplied the
  table is the input table unchanged; and the measurement table, the supplied types and the
  supplied descriptions have no influence on it.
\<close>

theorem filter_by_args_meta_narrowed_by_uuids_only:
  "(\<forall>m t. filter_by_args meas_df meta_df a = Inr (m, t)
           \<longrightarrow> t = snd (narrow_by_uuids meas_df meta_df a))
   \<and> snd (narrow_by_uuids meas_df meta_df a)
       = filter (\<lambda>r. r \<in> set (snd (narrow_by_uuids meas_df meta_df a))) meta_df
   \<and> (\<forall>r \<in> set meta_df. \<forall>x \<in> set meas_df. meta_uuid r = uuid x \<longrightarrow>
         (r \<in> set (snd (narrow_by_uuids meas_df meta_df a))
            \<longleftrightarrow> x \<in> set (fst (narrow_by_uuids meas_df meta_df a))))
   \<and> (\<not> truthy (uuids a) \<longrightarrow> snd (narrow_by_uuids meas_df meta_df a) = meta_df)
   \<and> snd (narrow_by_uuids meas_df' meta_df (a\<lparr>types := ty, descriptions := ds\<rparr>))
       = snd (narrow_by_uuids meas_df meta_df a)"
proof (intro conjI)
  show "\<forall>m t. filter_by_args meas_df meta_df a = Inr (m, t)
           \<longrightarrow> t = snd (narrow_by_uuids meas_df meta_df a)"
    by (auto simp: filter_by_args_steps Let_def split: if_splits)
next
  show "snd (narrow_by_uuids meas_df meta_df a)
       = filter (\<lambda>r. r \<in> set (snd (narrow_by_uuids meas_df meta_df a))) meta_df"
    by (auto simp: narrow_by_uuids_def intro: filter_cong)
next
  show "\<forall>r \<in> set meta_df. \<forall>x \<in> set meas_df. meta_uuid r = uuid x \<longrightarrow>
         (r \<in> set (snd (narrow_by_uuids meas_df meta_df a))
            \<longleftrightarrow> x \<in> set (fst (narrow_by_uuids meas_df meta_df a)))"
    by (simp add: narrow_by_uuids_def)
next
  show "\<not> truthy (uuids a) \<longrightarrow> snd (narrow_by_uuids meas_df meta_df a) = meta_df"
    by (simp add: narrow_by_uuids_def)
next
  show "snd (narrow_by_uuids meas_df' meta_df (a\<lparr>types := ty, descriptions := ds\<rparr>))
       = snd (narrow_by_uuids meas_df meta_df a)"
    by (simp add: narrow_by_uuids_def)
qed

theorem filter_by_args_meta_narrowed_by_uuids_only_witness:
  "filter_by_args two_run_meas two_run_meta no_criteria = Inr (two_run_meas, two_run_meta)
   \<and> two_run_meta = snd (narrow_by_uuids two_run_meas two_run_meta no_criteria)
   \<and> truthy (uuids (no_criteria\<lparr>uuids := Some [''A'']\<rparr>))
   \<and> hd two_run_meta \<in> set two_run_meta
   \<and> hd two_run_meas \<in> set two_run_meas
   \<and> meta_uuid (hd two_run_meta) = uuid (hd two_run_meas)
   \<and> (hd two_run_meta
         \<in> set (snd (narrow_by_uuids two_run_meas two_run_meta (no_criteria\<lparr>uuids := Some [''A'']\<rparr>))))
       = (hd two_run_meas
         \<in> set (fst (narrow_by_uuids two_run_meas two_run_meta (no_criteria\<lparr>uuids := Some [''A'']\<rparr>))))
   \<and> snd (narrow_by_uuids [] two_run_meta
             (no_criteria\<lparr>uuids := Some [''A''], types := Some [''memory''],
                          descriptions := Some [''d2'']\<rparr>))
       = snd (narrow_by_uuids two_run_meas two_run_meta (no_criteria\<lparr>uuids := Some [''A'']\<rparr>))"
proof -
  have r: "filter_by_args two_run_meas two_run_meta no_criteria = Inr (two_run_meas, two_run_meta)"
    by (simp add: filter_by_args_def Let_def no_criteria_def two_run_meas_def)
  have u: "truthy (uuids (no_criteria\<lparr>uuids := Some [''A'']\<rparr>))"
    by simp
  have h1: "hd two_run_meta \<in> set two_run_meta"
    by (simp add: two_run_meta_def)
  have h2: "hd two_run_meas \<in> set two_run_meas"
    by (simp add: two_run_meas_def)
  have h3: "meta_uuid (hd two_run_meta) = uuid (hd two_run_meas)"
    by (simp add: two_run_meta_def two_run_meas_def)
  from filter_by_args_meta_narrowed_by_uuids_only [of two_run_meas two_run_meta no_criteria] r
  have a: "two_run_meta = snd (narrow_by_uuids two_run_meas two_run_meta no_criteria)"
    by blast
  from filter_by_args_meta_narrowed_by_uuids_only
         [of two_run_meas two_run_meta "no_criteria\<lparr>uuids := Some [''A'']\<rparr>"] h1 h2 h3
  have b: "(hd two_run_meta
         \<in> set (snd (narrow_by_uuids two_run_meas two_run_meta (no_criteria\<lparr>uuids := Some [''A'']\<rparr>))))
       = (hd two_run_meas
         \<in> set (fst (narrow_by_uuids two_run_meas two_run_meta (no_criteria\<lparr>uuids := Some [''A'']\<rparr>))))"
    by blast
  from filter_by_args_meta_narrowed_by_uuids_only
         [where meas_df = two_run_meas and meta_df = two_run_meta
            and a = "no_criteria\<lparr>uuids := Some [''A'']\<rparr>" and meas_df' = "[]"
            and ty = "Some [''memory'']" and ds = "Some [''d2'']"]
  have c: "snd (narrow_by_uuids [] two_run_meta
             (no_criteria\<lparr>uuids := Some [''A''], types := Some [''memory''],
                          descriptions := Some [''d2'']\<rparr>))
       = snd (narrow_by_uuids two_run_meas two_run_meta (no_criteria\<lparr>uuids := Some [''A'']\<rparr>))"
    by simp
  from r a u h1 h2 h3 b c show ?thesis by blast
qed

section \<open>Interactive Selector: properties\<close>

lemma isin_ints: "isin (PyInt i) (map PyInt idx) \<longleftrightarrow> i \<in> set idx"
  by (auto simp: isin_def)

lemma isin_strs: "isin (PyStr s) (map PyStr xs) \<longleftrightarrow> s \<in> set xs"
  by (auto simp: isin_def)

lemma isin_empty: "\<not> isin v []"
  by (simp add: isin_def)

lemma set_choice_values: "set (choice_values cs) = {v. \<exists>n. Choice n v \<in> set cs}"
  by (induction cs rule: choice_values.induct) auto

lemma set_choice_names: "set (choice_names cs) = {n. \<exists>v. Choice n v \<in> set cs}"
  by (induction cs rule: choice_names.induct) auto

lemma groupby_iff:
  "(k, g) \<in> set (groupby key df) \<longleftrightarrow> k \<in> key ` set df \<and> g = filter (\<lambda>r. key r = k) df"
  by (auto simp: groupby_def)

lemma groupby_nullable_iff:
  "(k, g) \<in> set (groupby_nullable key df) \<longleftrightarrow>
     Some k \<in> key ` set df \<and> g = filter (\<lambda>r. key r = Some k) df"
proof -
  have "set (List.map_filter key df) = {y. \<exists>x \<in> set df. key x = Some y}"
    by (induction df) (auto split: option.splits)
  moreover have "Some k \<in> key ` set df \<longleftrightarrow> (\<exists>x \<in> set df. key x = Some k)"
    by (auto simp: image_iff) (metis)
  ultimately show ?thesis
    by (auto simp: groupby_nullable_def)
qed

text \<open>What the type stage and the description stage present.\<close>

lemma type_choices_iff:
  "Choice t v \<in> set (type_choices df) \<longleftrightarrow>
     (\<exists>u. u \<in> uuid ` set df
        \<and> t \<in> measurement_type ` set (filter (\<lambda>r. uuid r = u) df)
        \<and> v = map row_id (filter (\<lambda>r. measurement_type r = t) (filter (\<lambda>r. uuid r = u) df)))"
proof -
  have "Choice t v \<in> set (type_choices df) \<longleftrightarrow>
        (\<exists>u g. (u, g) \<in> set (groupby uuid df)
           \<and> (\<exists>g'. (t, g') \<in> set (groupby measurement_type g) \<and> v = map row_id g'))"
    unfolding type_choices_def by (simp add: split_beta) force
  also have "\<dots> \<longleftrightarrow>
     (\<exists>u. u \<in> uuid ` set df
        \<and> t \<in> measurement_type ` set (filter (\<lambda>r. uuid r = u) df)
        \<and> v = map row_id (filter (\<lambda>r. measurement_type r = t) (filter (\<lambda>r. uuid r = u) df)))"
    unfolding groupby_iff by auto
  finally show ?thesis .
qed

lemma description_choices_iff:
  "Choice d v \<in> set (description_choices df) \<longleftrightarrow>
     (\<exists>u t. (u, t) \<in> (\<lambda>r. (uuid r, measurement_type r)) ` set df
        \<and> Some d \<in> measurement_desc ` set (filter (\<lambda>r. (uuid r, measurement_type r) = (u, t)) df)
        \<and> v = map row_id (filter (\<lambda>r. measurement_desc r = Some d)
                              (filter (\<lambda>r. (uuid r, measurement_type r) = (u, t)) df)))"
proof -
  have "Choice d v \<in> set (description_choices df) \<longleftrightarrow>
        (\<exists>k g. (k, g) \<in> set (groupby (\<lambda>r. (uuid r, measurement_type r)) df)
           \<and> (\<exists>g'. (d, g') \<in> set (groupby_nullable measurement_desc g) \<and> v = map row_id g'))"
    unfolding description_choices_def by (simp add: split_beta) force
  also have "\<dots> \<longleftrightarrow>
     (\<exists>u t. (u, t) \<in> (\<lambda>r. (uuid r, measurement_type r)) ` set df
        \<and> Some d \<in> measurement_desc ` set (filter (\<lambda>r. (uuid r, measurement_type r) = (u, t)) df)
        \<and> v = map row_id (filter (\<lambda>r. measurement_desc r = Some d)
                              (filter (\<lambda>r. (uuid r, measurement_type r) = (u, t)) df)))"
    unfolding groupby_iff groupby_nullable_iff by auto
  finally show ?thesis .
qed

lemma presented_description_ids:
  assumes "Choice d v \<in> set (description_choices df)" and "i \<in> set v"
  shows "\<exists>r \<in> set df. row_id r = i \<and> measurement_desc r = Some d"
  using assms unfolding description_choices_iff by auto

lemma description_presented:
  assumes "r \<in> set df" and "measurement_desc r = Some d"
  shows "\<exists>v. Choice d v \<in> set (description_choices df) \<and> row_id r \<in> set v"
proof -
  let ?v = "map row_id (filter (\<lambda>x. measurement_desc x = Some d)
              (filter (\<lambda>x. (uuid x, measurement_type x) = (uuid r, measurement_type r)) df))"
  from assms have "Choice d ?v \<in> set (description_choices df)"
    unfolding description_choices_iff
    by (intro exI [of _ "uuid r"] exI [of _ "measurement_type r"]) force
  moreover from assms have "row_id r \<in> set ?v" by force
  ultimately show ?thesis by blast
qed

lemma type_presented:
  assumes "r \<in> set df"
  shows "\<exists>v. Choice (measurement_type r) v \<in> set (type_choices df) \<and> row_id r \<in> set v"
proof -
  let ?v = "map row_id (filter (\<lambda>x. measurement_type x = measurement_type r)
              (filter (\<lambda>x. uuid x = uuid r) df))"
  from assms have "Choice (measurement_type r) ?v \<in> set (type_choices df)"
    unfolding type_choices_iff by (intro exI [of _ "uuid r"]) force
  moreover from assms have "row_id r \<in> set ?v" by force
  ultimately show ?thesis by blast
qed

text \<open>Who survives a stage: the rows whose id is in one of the ticked values.\<close>

lemma prompt_for_description_survivor:
  "r \<in> set (prompt_for_description prompt df) \<longleftrightarrow>
     r \<in> set df \<and> (\<exists>v \<in> set (prompt (description_choices df)). row_id r \<in> set v)"
  by (auto simp: prompt_for_description_def Let_def isin_ints)

lemma distinct_row_id_eq:
  "distinct (map row_id df) \<Longrightarrow> r \<in> set df \<Longrightarrow> r' \<in> set df \<Longrightarrow> row_id r = row_id r' \<Longrightarrow> r = r'"
  by (meson distinct_map inj_onD)

text \<open>The three stages when the user ticks every presented choice.\<close>

lemma uuid_choice_values: "choice_values (uuid_choices str meta_df) = map meta_uuid meta_df"
  by (induction meta_df) (simp_all add: uuid_choices_def)

lemma prompt_for_uuid_select_all:
  "prompt_for_uuid select_all str meas_df meta_df
     = (filter (\<lambda>r. uuid r \<in> meta_uuid ` set meta_df) meas_df, meta_df)"
  by (simp add: prompt_for_uuid_def Let_def select_all_def uuid_choice_values isin_strs)

lemma prompt_for_types_select_all: "prompt_for_types select_all df = df"
proof -
  have "\<forall>r \<in> set df. isin (PyInt (row_id r)) (map PyInt (concat (select_all (type_choices df))))"
  proof
    fix r assume "r \<in> set df"
    from type_presented [OF this]
    show "isin (PyInt (row_id r)) (map PyInt (concat (select_all (type_choices df))))"
      unfolding isin_ints select_all_def by (auto simp: set_choice_values)
  qed
  then show ?thesis
    by (simp add: prompt_for_types_def Let_def)
qed

lemma prompt_for_description_select_all:
  assumes "distinct (map row_id df)"
  shows "prompt_for_description select_all df = filter (\<lambda>r. measurement_desc r \<noteq> None) df"
proof -
  have "\<And>r. r \<in> set df \<Longrightarrow>
          isin (PyInt (row_id r)) (map PyInt (concat (select_all (description_choices df))))
            \<longleftrightarrow> measurement_desc r \<noteq> None"
  proof
    fix r assume r: "r \<in> set df"
    {
      assume "isin (PyInt (row_id r)) (map PyInt (concat (select_all (description_choices df))))"
      then obtain d v where "Choice d v \<in> set (description_choices df)" "row_id r \<in> set v"
        unfolding isin_ints select_all_def by (auto simp: set_choice_values)
      then obtain r' where "r' \<in> set df" "row_id r' = row_id r" "measurement_desc r' = Some d"
        using presented_description_ids by blast
      with assms r show "measurement_desc r \<noteq> None"
        using distinct_row_id_eq by fastforce
    }
    {
      assume "measurement_desc r \<noteq> None"
      then obtain d where "measurement_desc r = Some d" by auto
      from description_presented [OF r this]
      show "isin (PyInt (row_id r)) (map PyInt (concat (select_all (description_choices df))))"
        unfolding isin_ints select_all_def by (auto simp: set_choice_values)
    }
  qed
  then show ?thesis
    unfolding prompt_for_description_def Let_def by (auto intro: filter_cong)
qed

text \<open>
  With every choice ticked at every stage, the three stages keep exactly the rows that the
  membership filter of the specification keeps for the ticked run identifiers, type names
  and descriptions.
\<close>

lemma full_selection_is_membership_filter:
  assumes "distinct (map row_id meas_df)"
  shows "prompt_for_description select_all
           (prompt_for_types select_all (fst (prompt_for_uuid select_all str meas_df meta_df)))
         = membership_filter
             (select_all (uuid_choices str meta_df))
             (choice_names (type_choices (fst (prompt_for_uuid select_all str meas_df meta_df))))
             (choice_names (description_choices
                (prompt_for_types select_all (fst (prompt_for_uuid select_all str meas_df meta_df)))))
             meas_df"
proof -
  let ?m1 = "filter (\<lambda>r. uuid r \<in> meta_uuid ` set meta_df) meas_df"
  have d1: "distinct (map row_id ?m1)"
    using assms by (simp add: distinct_map_filter)
  have lhs: "prompt_for_description select_all
           (prompt_for_types select_all (fst (prompt_for_uuid select_all str meas_df meta_df)))
        = filter (\<lambda>r. measurement_desc r \<noteq> None) ?m1"
    by (simp add: prompt_for_uuid_select_all prompt_for_types_select_all
          prompt_for_description_select_all [OF d1])
  have rhs: "membership_filter
             (select_all (uuid_choices str meta_df))
             (choice_names (type_choices (fst (prompt_for_uuid select_all str meas_df meta_df))))
             (choice_names (description_choices
                (prompt_for_types select_all (fst (prompt_for_uuid select_all str meas_df meta_df)))))
             meas_df
        = filter (\<lambda>r. uuid r \<in> meta_uuid ` set meta_df
                     \<and> measurement_type r \<in> set (choice_names (type_choices ?m1))
                     \<and> measurement_desc r \<in> Some ` set (choice_names (description_choices ?m1)))
            meas_df"
    by (simp add: membership_filter_def prompt_for_uuid_select_all prompt_for_types_select_all
          select_all_def uuid_choice_values)
  have "\<And>r. r \<in> set meas_df \<Longrightarrow>
          (uuid r \<in> meta_uuid ` set meta_df \<and> measurement_desc r \<noteq> None)
          \<longleftrightarrow> (uuid r \<in> meta_uuid ` set meta_df
                     \<and> measurement_type r \<in> set (choice_names (type_choices ?m1))
                     \<and> measurement_desc r \<in> Some ` set (choice_names (description_choices ?m1)))"
  proof -
    fix r assume r: "r \<in> set meas_df"
    show "(uuid r \<in> meta_uuid ` set meta_df \<and> measurement_desc r \<noteq> None)
          \<longleftrightarrow> (uuid r \<in> meta_uuid ` set meta_df
                     \<and> measurement_type r \<in> set (choice_names (type_choices ?m1))
                     \<and> measurement_desc r \<in> Some ` set (choice_names (description_choices ?m1)))"
    proof (cases "uuid r \<in> meta_uuid ` set meta_df")
      case False
      then show ?thesis by simp
    next
      case True
      with r have r1: "r \<in> set ?m1" by simp
      from type_presented [OF r1]
      have t: "measurement_type r \<in> set (choice_names (type_choices ?m1))"
        unfolding set_choice_names by blast
      have "measurement_desc r \<noteq> None
            \<longleftrightarrow> measurement_desc r \<in> Some ` set (choice_names (description_choices ?m1))"
      proof (cases "measurement_desc r")
        case None
        then show ?thesis by auto
      next
        case (Some d)
        from description_presented [OF r1 Some]
        have "d \<in> set (choice_names (description_choices ?m1))"
          unfolding set_choice_names by blast
        with Some show ?thesis by simp
      qed
      with True t show ?thesis by simp
    qed
  qed
  then have "filter (\<lambda>r. measurement_desc r \<noteq> None) ?m1
      = filter (\<lambda>r. uuid r \<in> meta_uuid ` set meta_df
                     \<and> measurement_type r \<in> set (choice_names (type_choices ?m1))
                     \<and> measurement_desc r \<in> Some ` set (choice_names (description_choices ?m1)))
          meas_df"
    by (simp add: conj_commute cong: filter_cong)
  with lhs rhs show ?thesis by simp
qed

text \<open>
  Claim C3, at the two-run store: with every choice ticked the three stages keep all three
  rows; the ticked run identifiers, type names and descriptions are listed; and the Criteria
  Filter given exactly these three lists as criteria does not return those rows but ends in
  the no-matching-records exception, because it wraps each list in another list before the
  membership test.
\<close>

theorem full_selection_differs_from_filter_by_args:
  "prompt_for_description select_all
     (prompt_for_types select_all
        (fst (prompt_for_uuid select_all str_time two_run_meas two_run_meta)))
     = two_run_meas
   \<and> select_all (uuid_choices str_time two_run_meta) = [''A'', ''B'']
   \<and> choice_names (type_choices two_run_meas) = [''latency'', ''memory'', ''latency'']
   \<and> choice_names (description_choices two_run_meas) = [''d1'', ''d2'', ''d1'']
   \<and> filter_by_args two_run_meas two_run_meta
        (no_criteria\<lparr>uuids := Some [''A'', ''B''],
                     types := Some [''latency'', ''memory'', ''latency''],
                     descriptions := Some [''d1'', ''d2'', ''d1'']\<rparr>)
       = Inl NoMatchingRecords"
  by code_simp

text \<open>
  Claim C10: in the description stage of a table with unique row ids, a row whose
  description is null is in none of the presented choices, and it does not survive the
  stage whatever presented choices the user ticks, in particular when every choice is
  ticked; a row whose description is the empty string is presented under the name of the
  empty string and survives when every choice is ticked.
\<close>

theorem description_stage_null_and_empty:
  assumes ids: "distinct (map row_id meas_df)"
    and r: "r \<in> set meas_df"
  shows "(measurement_desc r = None \<longrightarrow>
            (\<forall>d v. Choice d v \<in> set (description_choices meas_df) \<longrightarrow> row_id r \<notin> set v)
          \<and> (set (prompt (description_choices meas_df))
                \<subseteq> set (choice_values (description_choices meas_df))
              \<longrightarrow> r \<notin> set (prompt_for_description prompt meas_df))
          \<and> r \<notin> set (prompt_for_description select_all meas_df))
       \<and> (measurement_desc r = Some [] \<longrightarrow>
            (\<exists>v. Choice [] v \<in> set (description_choices meas_df) \<and> row_id r \<in> set v)
          \<and> r \<in> set (prompt_for_description select_all meas_df))"
proof (intro conjI impI)
  assume null: "measurement_desc r = None"
  show np: "\<forall>d v. Choice d v \<in> set (description_choices meas_df) \<longrightarrow> row_id r \<notin> set v"
  proof (intro allI impI notI)
    fix d v
    assume "Choice d v \<in> set (description_choices meas_df)" and "row_id r \<in> set v"
    then obtain r' where r': "r' \<in> set meas_df" "row_id r' = row_id r" "measurement_desc r' = Some d"
      using presented_description_ids by blast
    with ids r have "r' = r" using distinct_row_id_eq by metis
    with r' null show False by simp
  qed
  {
    fix p :: "int list choice list \<Rightarrow> int list list"
    assume sub: "set (p (description_choices meas_df))
                  \<subseteq> set (choice_values (description_choices meas_df))"
    have "r \<notin> set (prompt_for_description p meas_df)"
    proof
      assume "r \<in> set (prompt_for_description p meas_df)"
      then obtain v where "v \<in> set (p (description_choices meas_df))" "row_id r \<in> set v"
        unfolding prompt_for_description_survivor by blast
      with sub obtain d where "Choice d v \<in> set (description_choices meas_df)"
        unfolding set_choice_values by blast
      with np \<open>row_id r \<in> set v\<close> show False by blast
    qed
  } note drop = this
  show "r \<notin> set (prompt_for_description select_all meas_df)"
    by (rule drop) (simp add: select_all_def)
  assume "set (prompt (description_choices meas_df))
                \<subseteq> set (choice_values (description_choices meas_df))"
  then show "r \<notin> set (prompt_for_description prompt meas_df)" by (rule drop)
next
  assume e: "measurement_desc r = Some []"
  from description_presented [OF r e]
  obtain v where v: "Choice [] v \<in> set (description_choices meas_df)" "row_id r \<in> set v"
    by blast
  then show "\<exists>v. Choice [] v \<in> set (description_choices meas_df) \<and> row_id r \<in> set v"
    by blast
  from v have "v \<in> set (select_all (description_choices meas_df))"
    unfolding select_all_def set_choice_values by blast
  with v r show "r \<in> set (prompt_for_description select_all meas_df)"
    unfolding prompt_for_description_survivor by blast
qed

theorem description_stage_null_and_empty_witness:
  "distinct (map row_id desc_meas)
   \<and> null_desc_row \<in> set desc_meas \<and> measurement_desc null_desc_row = None
   \<and> set (select_all (description_choices desc_meas))
       \<subseteq> set (choice_values (description_choices desc_meas))
   \<and> null_desc_row \<notin> set (prompt_for_description select_all desc_meas)
   \<and> empty_desc_row \<in> set desc_meas \<and> measurement_desc empty_desc_row = Some []
   \<and> empty_desc_row \<in> set (prompt_for_description select_all desc_meas)"
proof -
  have d: "distinct (map row_id desc_meas)"
    by (simp add: desc_meas_def null_desc_row_def empty_desc_row_def)
  have n: "null_desc_row \<in> set desc_meas" and e: "empty_desc_row \<in> set desc_meas"
    by (simp_all add: desc_meas_def)
  have nd: "measurement_desc null_desc_row = None"
    by (simp add: null_desc_row_def)
  have ed: "measurement_desc empty_desc_row = Some []"
    by (simp add: empty_desc_row_def)
  have s: "set (select_all (description_choices desc_meas))
             \<subseteq> set (choice_values (description_choices desc_meas))"
    by (simp add: select_all_def)
  from description_stage_null_and_empty [OF d n, of select_all] nd s
  have a: "null_desc_row \<notin> set (prompt_for_description select_all desc_meas)"
    by blast
  from description_stage_null_and_empty [OF d e, of select_all] ed
  have b: "empty_desc_row \<in> set (prompt_for_description select_all desc_meas)"
    by blast
  from d n nd s a e ed b show ?thesis by blast
qed

section \<open>Payload Joiner: properties\<close>

lemma filter_unique_key:
  "distinct (map f xs) \<Longrightarrow> x \<in> set xs \<Longrightarrow> filter (\<lambda>y. f y = f x) xs = [x]"
proof (induction xs)
  case Nil
  then show ?case by simp
next
  case (Cons a xs)
  show ?case
  proof (cases "a = x")
    case True
    from Cons.prems True have "f x \<notin> f ` set xs" by simp
    then have "\<forall>y \<in> set xs. f y \<noteq> f x" by (metis imageI)
    then have "filter (\<lambda>y. f y = f x) xs = []" by (simp add: filter_empty_conv)
    with True show ?thesis by simp
  next
    case False
    with Cons.prems have x: "x \<in> set xs" by simp
    with Cons.prems have "f a \<noteq> f x" by auto
    with Cons.IH x Cons.prems show ?thesis by simp
  qed
qed

lemma merge_Nil: "merge lkey rkey [] right = []"
  by (simp add: merge_def)

lemma merge_Cons:
  "merge lkey rkey (l # ls) right
     = map (Pair l) (filter (\<lambda>r. rkey r = lkey l) right) @ merge lkey rkey ls right"
  by (simp add: merge_def)

lemma merge_set:
  "(l, r) \<in> set (merge lkey rkey left right)
     \<longleftrightarrow> l \<in> set left \<and> r \<in> set right \<and> rkey r = lkey l"
  by (auto simp: merge_def)

text \<open>
  When the keys of the right table are unique and every left key occurs among them, the
  inner join has one row per left row, in the order of the left table.
\<close>

lemma merge_unique:
  assumes "distinct (map rkey right)" and "\<forall>l \<in> set left. lkey l \<in> rkey ` set right"
  shows "map fst (merge lkey rkey left right) = left"
  using assms(2)
proof (induction left)
  case Nil
  then show ?case by (simp add: merge_Nil)
next
  case (Cons l ls)
  then obtain r where r: "r \<in> set right" "lkey l = rkey r" by auto
  from filter_unique_key [OF assms(1) r(1)] r(2)
  have "filter (\<lambda>y. rkey y = lkey l) right = [r]" by simp
  with Cons show ?case by (simp add: merge_Cons)
qed

lemma unpickle_rows_ok:
  "\<forall>m \<in> set ms. loads (m_value m) \<noteq> None \<Longrightarrow>
   unpickle_rows loads ms = Inr (map (serialized_of loads) ms)"
  by (induction ms) (auto simp: serialized_of_def)

lemma unpickle_rows_fails:
  "m \<in> set ms \<Longrightarrow> loads (m_value m) = None \<Longrightarrow> unpickle_rows loads ms = Inl UnpicklingError"
  by (induction ms) (auto split: option.splits sum.splits)

lemma join_remaining_columns_empty: "join_remaining_columns loads [] meta_df s = Inr []"
  by (simp add: join_remaining_columns_def merge_def)

text \<open>
  Claim C5 as stated fails: in the two-run store every measurement's run is in the
  metadata table, and the join returns one row per measurement, but the row of measurement
  3 has no value in the joined columns \<^verbatim>\<open>meta_desc\<close> (run \<open>B\<close> has no description) and
  \<^verbatim>\<open>measurement_unit\<close> (the measurement has no unit).
\<close>

theorem join_remaining_columns_keeps_empty_values:
  "set (map uuid two_run_meas) \<subseteq> set (map meta_uuid two_run_meta)
   \<and> join_remaining_columns loads_ok two_run_meas two_run_meta two_run_session = Inr two_run_flat
   \<and> length two_run_flat = length two_run_meas
   \<and> flat_meta_desc (two_run_flat ! 2) = None
   \<and> flat_measurement_unit (two_run_flat ! 2) = None"
  by code_simp

text \<open>
  Claim C5, amended: for a store with unique measurement ids, a metadata table with unique
  run identifiers, and a measurement-index table whose rows are rows of the store, have
  their run in the metadata table and have payloads that decode, the Payload Joiner
  returns exactly one output row per input row (as many output rows as input rows, and the
  index columns of the output rows are, with multiplicity, the input rows; no order of the
  rows is stated); every output row carries in its joined columns the timestamp, unit
  and decoded payload of the stored measurement of its id and the description and start
  time of the metadata row of its run, whether or not those values are empty.
\<close>

theorem join_remaining_columns_one_row_per_input:
  assumes store_ids: "distinct (map m_id (measurements s))"
    and run_ids: "distinct (map meta_uuid meta_df)"
    and loaded: "\<forall>r \<in> set meas_df. row_id r \<in> m_id ` set (measurements s)"
    and fk: "\<forall>r \<in> set meas_df. uuid r \<in> meta_uuid ` set meta_df"
    and decodes: "\<forall>m \<in> set (measurements s).
                    m_id m \<in> row_id ` set meas_df \<longrightarrow> loads (m_value m) \<noteq> None"
  shows "\<exists>out. join_remaining_columns loads meas_df meta_df s = Inr out
           \<and> length out = length meas_df
           \<and> mset (map (\<lambda>fr. \<lparr>row_id = flat_id fr, uuid = flat_uuid fr,
                              measurement_type = flat_measurement_type fr,
                              measurement_desc = flat_measurement_desc fr\<rparr>) out)
               = mset meas_df
           \<and> (\<forall>fr \<in> set out.
                 (\<exists>x \<in> set (measurements s). m_id x = flat_id fr
                     \<and> flat_measurement_time fr = m_datetime x
                     \<and> flat_measurement_unit fr = m_unit x
                     \<and> loads (m_value x) = Some (flat_measurement_data fr))
               \<and> (\<exists>m \<in> set meta_df. meta_uuid m = flat_uuid fr
                     \<and> flat_meta_desc fr = meta_desc m
                     \<and> flat_meta_start_time fr = meta_start_time m))"
proof -
  let ?q = "filter (\<lambda>m. m_id m \<in> set (map row_id meas_df)) (measurements s)"
  let ?ser = "map (serialized_of loads) ?q"
  let ?inner = "merge row_id ser_id meas_df ?ser"
  let ?outer = "merge (\<lambda>(r, s). uuid r) meta_uuid ?inner meta_df"
  let ?out = "map flat_of ?outer"
  from decodes have "\<forall>m \<in> set ?q. loads (m_value m) \<noteq> None" by auto
  then have u: "unpickle_rows loads ?q = Inr ?ser" by (rule unpickle_rows_ok)
  then have res: "join_remaining_columns loads meas_df meta_df s = Inr ?out"
    by (simp add: join_remaining_columns_def Let_def)
  have "map ser_id ?ser = map m_id ?q" by (simp add: serialized_of_def comp_def)
  moreover from store_ids have "distinct (map m_id ?q)" by (rule distinct_map_filter)
  ultimately have d: "distinct (map ser_id ?ser)" by (simp only:)
  have "\<forall>r \<in> set meas_df. row_id r \<in> ser_id ` set ?ser"
  proof
    fix r assume r: "r \<in> set meas_df"
    with loaded obtain x where "x \<in> set (measurements s)" "m_id x = row_id r" by auto
    with r have "x \<in> set ?q" by auto
    then have "ser_id (serialized_of loads x) \<in> ser_id ` set ?ser" by simp
    with \<open>m_id x = row_id r\<close> show "row_id r \<in> ser_id ` set ?ser"
      by (simp add: serialized_of_def)
  qed
  with d have inner: "map fst ?inner = meas_df" by (rule merge_unique)
  have "\<forall>l \<in> set ?inner. (\<lambda>(r, s). uuid r) l \<in> meta_uuid ` set meta_df"
  proof
    fix l assume "l \<in> set ?inner"
    then have "fst l \<in> set (map fst ?inner)" by simp
    with inner fk show "(\<lambda>(r, s). uuid r) l \<in> meta_uuid ` set meta_df"
      by (auto simp: split_beta)
  qed
  with run_ids have outer: "map fst ?outer = ?inner" by (rule merge_unique)
  have len: "length ?out = length meas_df"
  proof -
    have "length ?out = length (map fst ?outer)" by simp
    also have "\<dots> = length (map fst ?inner)" by (simp only: outer) simp
    also have "\<dots> = length meas_df" by (simp only: inner)
    finally show ?thesis .
  qed
  have proj: "map (\<lambda>fr. \<lparr>row_id = flat_id fr, uuid = flat_uuid fr,
                        measurement_type = flat_measurement_type fr,
                        measurement_desc = flat_measurement_desc fr\<rparr>) ?out = meas_df"
  proof -
    have "map (\<lambda>fr. \<lparr>row_id = flat_id fr, uuid = flat_uuid fr,
                        measurement_type = flat_measurement_type fr,
                        measurement_desc = flat_measurement_desc fr\<rparr>) ?out
          = map fst (map fst ?outer)"
      by (simp add: flat_of_def split_beta comp_def)
    with outer inner show ?thesis by simp
  qed
  have cols: "\<forall>fr \<in> set ?out.
                 (\<exists>x \<in> set (measurements s). m_id x = flat_id fr
                     \<and> flat_measurement_time fr = m_datetime x
                     \<and> flat_measurement_unit fr = m_unit x
                     \<and> loads (m_value x) = Some (flat_measurement_data fr))
               \<and> (\<exists>m \<in> set meta_df. meta_uuid m = flat_uuid fr
                     \<and> flat_meta_desc fr = meta_desc m
                     \<and> flat_meta_start_time fr = meta_start_time m)"
  proof
    fix fr assume "fr \<in> set ?out"
    then obtain r sr m where fr: "fr = flat_of ((r, sr), m)" and mem: "((r, sr), m) \<in> set ?outer"
      by auto
    from mem have m: "m \<in> set meta_df" "meta_uuid m = uuid r" and rs: "(r, sr) \<in> set ?inner"
      by (auto simp: merge_set)
    from rs have r: "r \<in> set meas_df" and sr: "sr \<in> set ?ser" "ser_id sr = row_id r"
      by (auto simp: merge_set)
    from sr obtain x where x: "x \<in> set ?q" "sr = serialized_of loads x" by auto
    with decodes have "loads (m_value x) \<noteq> None" by auto
    then obtain d where dd: "loads (m_value x) = Some d" by auto
    from x sr dd fr have "x \<in> set (measurements s) \<and> m_id x = flat_id fr
                     \<and> flat_measurement_time fr = m_datetime x
                     \<and> flat_measurement_unit fr = m_unit x
                     \<and> loads (m_value x) = Some (flat_measurement_data fr)"
      by (simp add: flat_of_def serialized_of_def)
    moreover from m fr have "m \<in> set meta_df \<and> meta_uuid m = flat_uuid fr
                     \<and> flat_meta_desc fr = meta_desc m
                     \<and> flat_meta_start_time fr = meta_start_time m"
      by (simp add: flat_of_def)
    ultimately show "(\<exists>x \<in> set (measurements s). m_id x = flat_id fr
                     \<and> flat_measurement_time fr = m_datetime x
                     \<and> flat_measurement_unit fr = m_unit x
                     \<and> loads (m_value x) = Some (flat_measurement_data fr))
               \<and> (\<exists>m \<in> set meta_df. meta_uuid m = flat_uuid fr
                     \<and> flat_meta_desc fr = meta_desc m
                     \<and> flat_meta_start_time fr = meta_start_time m)"
      by blast
  qed
  from proj have pm: "mset (map (\<lambda>fr. \<lparr>row_id = flat_id fr, uuid = flat_uuid fr,
                              measurement_type = flat_measurement_type fr,
                              measurement_desc = flat_measurement_desc fr\<rparr>) ?out)
               = mset meas_df"
    by (simp only:)
  from res len pm cols show ?thesis by blast
qed

theorem join_remaining_columns_one_row_per_input_witness:
  "distinct (map m_id (measurements two_run_session))
   \<and> distinct (map meta_uuid two_run_meta)
   \<and> set (map row_id two_run_meas) \<subseteq> set (map m_id (measurements two_run_session))
   \<and> set (map uuid two_run_meas) \<subseteq> set (map meta_uuid two_run_meta)
   \<and> list_all (\<lambda>m. loads_ok (m_value m) \<noteq> None) (measurements two_run_session)
   \<and> (\<exists>out. join_remaining_columns loads_ok two_run_meas two_run_meta two_run_session = Inr out
         \<and> length out = length two_run_meas
         \<and> mset (map (\<lambda>fr. \<lparr>row_id = flat_id fr, uuid = flat_uuid fr,
                            measurement_type = flat_measurement_type fr,
                            measurement_desc = flat_measurement_desc fr\<rparr>) out)
             = mset two_run_meas)"
proof -
  have h1: "distinct (map m_id (measurements two_run_session))"
    by (simp add: two_run_session_def)
  have h2: "distinct (map meta_uuid two_run_meta)"
    by (simp add: two_run_meta_def)
  have h3: "set (map row_id two_run_meas) \<subseteq> set (map m_id (measurements two_run_session))"
    by (simp add: two_run_session_def two_run_meas_def)
  have h4: "set (map uuid two_run_meas) \<subseteq> set (map meta_uuid two_run_meta)"
    by (simp add: two_run_meas_def two_run_meta_def)
  have h5: "list_all (\<lambda>m. loads_ok (m_value m) \<noteq> None) (measurements two_run_session)"
    by (simp add: loads_ok_def list_all_iff)
  from h3 have l: "\<forall>r \<in> set two_run_meas. row_id r \<in> m_id ` set (measurements two_run_session)"
    by auto
  from h4 have f: "\<forall>r \<in> set two_run_meas. uuid r \<in> meta_uuid ` set two_run_meta"
    by auto
  from h5 have p: "\<forall>m \<in> set (measurements two_run_session).
                     m_id m \<in> row_id ` set two_run_meas \<longrightarrow> loads_ok (m_value m) \<noteq> None"
    by (simp add: list_all_iff)
  from join_remaining_columns_one_row_per_input [OF h1 h2 l f p]
  have "\<exists>out. join_remaining_columns loads_ok two_run_meas two_run_meta two_run_session = Inr out
         \<and> length out = length two_run_meas
         \<and> mset (map (\<lambda>fr. \<lparr>row_id = flat_id fr, uuid = flat_uuid fr,
                            measurement_type = flat_measurement_type fr,
                            measurement_desc = flat_measurement_desc fr\<rparr>) out)
             = mset two_run_meas"
    by blast
  with h1 h2 h3 h4 h5 show ?thesis by blast
qed

section \<open>Render Dispatcher: properties\<close>

lemma groupby_keys: "map fst (groupby key df) = sort (remdups (map key df))"
  by (simp add: groupby_def comp_def)

lemma groupby_distinct_keys: "distinct (map fst (groupby key df))"
  by (simp add: groupby_keys)

lemma groupby_key_set: "fst ` set (groupby key df) = key ` set df"
proof -
  have "fst ` set (groupby key df) = set (map fst (groupby key df))" by simp
  also have "\<dots> = key ` set df" by (simp only: groupby_keys) simp
  finally show ?thesis .
qed

lemma mset_concat_filters:
  "distinct ks \<Longrightarrow>
   mset (concat (map (\<lambda>k. filter (\<lambda>r. key r = k) df) ks))
     = mset (filter (\<lambda>r. key r \<in> set ks) df)"
proof (induction ks)
  case Nil
  then show ?case by simp
next
  case (Cons k ks)
  have "mset (filter (\<lambda>r. key r = k) df) + mset (filter (\<lambda>r. key r \<in> set ks) df)
        = mset (filter (\<lambda>r. key r \<in> set (k # ks)) df)"
    using Cons.prems by (induction df) auto
  with Cons show ?case by simp
qed

lemma groupby_mset: "mset (concat (map snd (groupby key df))) = mset df"
proof -
  have "map snd (groupby key df)
          = map (\<lambda>k. filter (\<lambda>r. key r = k) df) (sort (remdups (map key df)))"
    by (simp add: groupby_def comp_def)
  then have "mset (concat (map snd (groupby key df)))
        = mset (filter (\<lambda>r. key r \<in> set (sort (remdups (map key df)))) df)"
    by (simp add: mset_concat_filters)
  also have "\<dots> = mset df"
    by (simp add: filter_mset_eq_conv)
  finally show ?thesis .
qed

text \<open>
  Claim C6: the groups the Render Dispatcher iterates over partition the joined table.
  Taken together, with multiplicity, the rows of all groups are the rows of the table; the
  group keys are pairwise different; and every row of a group has the group's key as its
  measurement type, so no row is in two groups.
\<close>

theorem groupby_measurement_type_partition:
  "mset (concat (map snd (groupby flat_measurement_type df))) = mset df
   \<and> distinct (map fst (groupby flat_measurement_type df))
   \<and> (\<forall>(k, g) \<in> set (groupby flat_measurement_type df).
         \<forall>r \<in> set g. flat_measurement_type r = k)"
  using groupby_mset [of flat_measurement_type df]
    groupby_distinct_keys [of flat_measurement_type df]
  by (auto simp: groupby_iff)

theorem groupby_measurement_type_partition_witness:
  "(''memory'', [two_run_flat ! 1]) \<in> set (groupby flat_measurement_type two_run_flat)
   \<and> mset (concat (map snd (groupby flat_measurement_type two_run_flat))) = mset two_run_flat
   \<and> distinct (map fst (groupby flat_measurement_type two_run_flat))
   \<and> flat_measurement_type (two_run_flat ! 1) = ''memory''"
proof -
  have g: "(''memory'', [two_run_flat ! 1]) \<in> set (groupby flat_measurement_type two_run_flat)"
    by code_simp
  from groupby_measurement_type_partition [of two_run_flat] g
  have "\<forall>r \<in> set [two_run_flat ! 1]. flat_measurement_type r = ''memory''"
    by blast
  then have "flat_measurement_type (two_run_flat ! 1) = ''memory''"
    by simp
  with groupby_measurement_type_partition [of two_run_flat] g show ?thesis
    by blast
qed

lemma chain_single_figure: "Figure f \<in> set figs \<Longrightarrow> chain figs = Inl TypeError"
proof (induction figs)
  case Nil
  then show ?case by simp
next
  case (Cons x xs)
  then show ?case by (cases x) auto
qed

lemma chain_figure_lists: "chain (map Figures fss) = Inr (concat fss)"
  by (induction fss) auto

text \<open>
  Claim C7, at a failing input: the visualizer of the latency type hands back a single
  figure and the visualizer of the memory type a list of one figure. Collecting the
  figures of the two-run table does not yield the two figures: iterating the single figure
  is a type error.
\<close>

theorem render_dispatch_single_figure:
  "render_dispatch single_figure_mapper Matplotlib two_run_flat = Inl TypeError"
  by code_simp

lemma render_loop_unregistered:
  "(k0, g0) \<in> set groups \<Longrightarrow> mapper k0 = None \<Longrightarrow>
   \<exists>k. k \<in> fst ` set groups \<and> mapper k = None
       \<and> render_loop mapper b groups figs = Inl (KeyError k)"
proof (induction groups arbitrary: figs)
  case Nil
  then show ?case by simp
next
  case (Cons kg groups)
  obtain k g where kg: "kg = (k, g)" by (cases kg)
  show ?case
  proof (cases "mapper k")
    case None
    with kg show ?thesis by auto
  next
    case (Some v)
    with Cons.prems kg have "(k0, g0) \<in> set groups" by auto
    from Cons.IH [OF this Cons.prems(2), of "figs @ [v g b]"] Some kg
    show ?thesis by auto
  qed
qed

lemma render_loop_registered:
  "\<forall>(k, g) \<in> set groups. mapper k \<noteq> None \<Longrightarrow>
   render_loop mapper b groups figs = Inr (figs @ map (\<lambda>(k, g). the (mapper k) g b) groups)"
  by (induction groups arbitrary: figs) auto

lemma render_dispatch_empty: "render_dispatch mapper b [] = Inr []"
  by (simp add: render_dispatch_def groupby_def)

text \<open>
  Claim C8: when a row of the joined table has a measurement type without a registered
  visualizer, the Render Dispatcher ends in the lookup error of an unregistered type that
  is present in the table; it returns no figures.
\<close>

theorem render_dispatch_unregistered_type:
  "r \<in> set df \<Longrightarrow> mapper (flat_measurement_type r) = None \<Longrightarrow>
   \<exists>k. k \<in> flat_measurement_type ` set df \<and> mapper k = None
       \<and> render_dispatch mapper b df = Inl (KeyError k)"
proof -
  assume r: "r \<in> set df" and m: "mapper (flat_measurement_type r) = None"
  from r have "flat_measurement_type r \<in> fst ` set (groupby flat_measurement_type df)"
    by (simp only: groupby_key_set) simp
  then obtain g where g: "(flat_measurement_type r, g) \<in> set (groupby flat_measurement_type df)"
    by force
  from render_loop_unregistered
         [where mapper = mapper and ?k0.0 = "flat_measurement_type r" and b = b and figs = "[]",
          OF g m]
  obtain k where "k \<in> fst ` set (groupby flat_measurement_type df)" "mapper k = None"
     "render_loop mapper b (groupby flat_measurement_type df) [] = Inl (KeyError k)"
    by blast
  then show ?thesis
    by (auto simp only: groupby_key_set render_dispatch_def sum.case)
qed

theorem render_dispatch_unregistered_type_witness:
  "two_run_flat ! 1 \<in> set two_run_flat
   \<and> latency_only_mapper (flat_measurement_type (two_run_flat ! 1)) = None
   \<and> (\<exists>k. k \<in> flat_measurement_type ` set two_run_flat \<and> latency_only_mapper k = None
         \<and> render_dispatch latency_only_mapper Plotly two_run_flat = Inl (KeyError k))"
proof -
  have h1: "two_run_flat ! 1 \<in> set two_run_flat"
    by (simp add: two_run_flat_def)
  have h2: "latency_only_mapper (flat_measurement_type (two_run_flat ! 1)) = None"
    by (simp add: two_run_flat_def latency_only_mapper_def)
  from render_dispatch_unregistered_type
         [where r = "two_run_flat ! 1" and df = two_run_flat and mapper = latency_only_mapper
            and b = Plotly, OF h1 h2]
       h1 h2
  show ?thesis
    by blast
qed

section \<open>The pipeline: properties\<close>

lemma prompt_for_types_empty: "prompt_for_types p [] = []"
  by (simp add: prompt_for_types_def Let_def)

lemma prompt_for_description_empty: "prompt_for_description p [] = []"
  by (simp add: prompt_for_description_def Let_def)

lemma types_stage_empty: "types_stage a p [] = []"
  by (simp add: types_stage_def prompt_for_types_empty)

lemma description_stage_empty: "description_stage a p [] = []"
  by (simp add: description_stage_def prompt_for_description_empty)

text \<open>
  Claim C9: when the Criteria Filter has passed and, at one of the interactive stages that
  run, the user ticks nothing, the working table after the stages is empty, the Payload
  Joiner returns the empty table without an error, and the run completes normally with no
  figure produced.
\<close>

theorem empty_selection_completes:
  assumes passed: "filter_by_args (fst (create_dfs s)) (snd (create_dfs s)) a = Inr (m1, t1)"
    and staged: "uuid_stage a prompt_u str m1 t1 = (m2, t2)"
    and ticked_none:
      "uuids a = None \<and> prompt_u (uuid_choices str t1) = []
       \<or> types a = None \<and> prompt_t (type_choices m2) = []
       \<or> descriptions a = None
          \<and> prompt_d (description_choices (types_stage a prompt_t m2)) = []"
  shows "description_stage a prompt_d (types_stage a prompt_t m2) = []
         \<and> join_remaining_columns loads
               (description_stage a prompt_d (types_stage a prompt_t m2)) t2 s
             = Inr ([] :: ('ts, 'd) flat_row list)
         \<and> main a s loads mapper str prompt_u prompt_t prompt_d = Inr []"
proof -
  from ticked_none consider
      (u) "uuids a = None" "prompt_u (uuid_choices str t1) = []"
    | (t) "types a = None" "prompt_t (type_choices m2) = []"
    | (d) "descriptions a = None"
          "prompt_d (description_choices (types_stage a prompt_t m2)) = []"
    by auto
  then have e: "description_stage a prompt_d (types_stage a prompt_t m2) = []"
  proof cases
    case u
    with staged have "m2 = []"
      by (simp add: uuid_stage_def prompt_for_uuid_def Let_def isin_empty)
    then show ?thesis by (simp add: types_stage_empty description_stage_empty)
  next
    case t
    then have "types_stage a prompt_t m2 = []"
      by (simp add: types_stage_def prompt_for_types_def Let_def isin_empty)
    then show ?thesis by (simp add: description_stage_empty)
  next
    case d
    then show ?thesis
      by (simp add: description_stage_def prompt_for_description_def Let_def isin_empty)
  qed
  have j: "join_remaining_columns loads
             (description_stage a prompt_d (types_stage a prompt_t m2)) t2 s
             = Inr ([] :: ('ts, 'd) flat_row list)"
    by (simp only: e join_remaining_columns_empty)
  have "main a s loads mapper str prompt_u prompt_t prompt_d = Inr []"
    using passed staged j
    by (simp add: main_def split_beta Let_def render_dispatch_empty)
  with e j show ?thesis by blast
qed

theorem empty_selection_completes_witness:
  "filter_by_args (fst (create_dfs two_run_session)) (snd (create_dfs two_run_session)) no_criteria
     = Inr (two_run_meas, two_run_meta)
   \<and> uuid_stage no_criteria select_all str_time two_run_meas two_run_meta
       = (two_run_meas, two_run_meta)
   \<and> types no_criteria = None
   \<and> select_none (type_choices two_run_meas) = ([] :: int list list)
   \<and> description_stage no_criteria select_all (types_stage no_criteria select_none two_run_meas) = []
   \<and> main no_criteria two_run_session loads_ok single_figure_mapper str_time
        select_all select_none select_all = Inr []"
proof -
  have h1: "filter_by_args (fst (create_dfs two_run_session)) (snd (create_dfs two_run_session))
              no_criteria = Inr (two_run_meas, two_run_meta)"
    by code_simp
  have h2: "uuid_stage no_criteria select_all str_time two_run_meas two_run_meta
              = (two_run_meas, two_run_meta)"
    by code_simp
  have h3: "types no_criteria = None"
    by (simp add: no_criteria_def)
  have h4: "select_none (type_choices two_run_meas) = ([] :: int list list)"
    by (simp add: select_none_def)
  from h3 h4 have h5:
    "uuids no_criteria = None \<and> select_all (uuid_choices str_time two_run_meta) = []
     \<or> types no_criteria = None \<and> select_none (type_choices two_run_meas) = []
     \<or> descriptions no_criteria = None
        \<and> select_all (description_choices (types_stage no_criteria select_none two_run_meas)) = []"
    by blast
  from empty_selection_completes
         [where a = no_criteria and s = two_run_session and ?m1.0 = two_run_meas
            and ?t1.0 = two_run_meta and ?m2.0 = two_run_meas and ?t2.0 = two_run_meta
            and prompt_u = select_all and prompt_t = select_none and prompt_d = select_all
            and str = str_time and loads = loads_ok and mapper = single_figure_mapper,
          OF h1 h2 h5]
       h1 h2 h3 h4
  show ?thesis by blast
qed

end
